theory Spec2Isabelle
  imports Main
begin

text \<open>
  A model of the document-review assistant: the red-flag rules of \<open>red_flags.py\<close> and
  the retrieval pipeline of \<open>rag_utils.py\<close> (building and loading the vector index,
  the tolerant invocation of the generation backend, and the compliance check of a
  clause). Exceptions are values of a sum type, the file system is an explicit state, and
  the libraries the code calls (the regular expressions it uses, \<open>json.loads\<close>, the
  loaders, the embedding model and the vector store) are either written out for the
  inputs the code gives them or taken as parameters.
\<close>

section \<open>Python strings\<close>

text \<open>
  A Python \<open>str\<close> is modelled as a \<open>string\<close> (a list of 8-bit characters); the model
  covers ASCII text: letters outside \<open>A-Z\<close> are left alone by \<open>lower\<close> and are not word
  characters.
\<close>

definition ascii_uppercase :: string where
  "ascii_uppercase = ''ABCDEFGHIJKLMNOPQRSTUVWXYZ''"

definition ascii_lowercase :: string where
  "ascii_lowercase = ''abcdefghijklmnopqrstuvwxyz''"

definition digits :: string where
  "digits = ''0123456789''"

definition lower_char :: "char \<Rightarrow> char" where
  "lower_char c =
     (case map_of (zip ascii_uppercase ascii_lowercase) c of None \<Rightarrow> c | Some d \<Rightarrow> d)"

definition lower :: "string \<Rightarrow> string" where
  \<comment> \<open>\<open>s.lower()\<close>\<close>
  "lower s = map lower_char s"

fun startswith :: "string \<Rightarrow> string \<Rightarrow> bool" where
  \<comment> \<open>\<open>s.startswith(p)\<close>\<close>
  "startswith s [] = True"
| "startswith [] (p # ps) = False"
| "startswith (c # cs) (p # ps) = (c = p \<and> startswith cs ps)"

definition endswith :: "string \<Rightarrow> string \<Rightarrow> bool" where
  \<comment> \<open>\<open>s.endswith(p)\<close>\<close>
  "endswith s p = startswith (rev s) (rev p)"

fun contains :: "string \<Rightarrow> string \<Rightarrow> bool" where
  \<comment> \<open>\<open>sub in s\<close>\<close>
  "contains sub [] = (sub = [])"
| "contains sub (c # cs) = (startswith (c # cs) sub \<or> contains sub cs)"

fun join :: "string \<Rightarrow> string list \<Rightarrow> string" where
  \<comment> \<open>\<open>sep.join(xs)\<close>\<close>
  "join sep [] = []"
| "join sep [x] = x"
| "join sep (x # y # ys) = x @ sep @ join sep (y # ys)"

section \<open>Regular expressions used by the red-flag rules\<close>

text \<open>
  Every pattern of \<open>red_flags.py\<close> is a literal stem followed by an optional group of
  literal alternatives, matched with \<open>re.IGNORECASE\<close>; the jurisdiction and ambiguity
  patterns are enclosed in \<open>\b\<close>. A pattern is kept as its stem and the alternatives in
  the order the regex lists them (a pattern with no group has the single alternative
  \<open>''''\<close>).
\<close>

type_synonym pattern = "string \<times> string list"

definition is_word_char :: "char \<Rightarrow> bool" where
  \<comment> \<open>\<open>\w\<close>\<close>
  "is_word_char c = (c \<in> set (ascii_lowercase @ ascii_uppercase @ digits @ ''_''))"

definition word_boundary :: "string \<Rightarrow> nat \<Rightarrow> bool" where
  \<comment> \<open>\<open>\b\<close> at offset \<open>i\<close>: exactly one of the neighbours is a word character\<close>
  "word_boundary s i =
     ((0 < i \<and> i \<le> length s \<and> is_word_char (s ! (i - 1)))
      \<noteq> (i < length s \<and> is_word_char (s ! i)))"

definition literal_at :: "string \<Rightarrow> string \<Rightarrow> nat \<Rightarrow> bool" where
  \<comment> \<open>the literal occurs at offset \<open>i\<close>, ignoring case\<close>
  "literal_at lit s i = (lower (take (length lit) (drop i s)) = lower lit)"

definition match_at :: "pattern \<Rightarrow> string \<Rightarrow> nat \<Rightarrow> nat option" where
  \<comment> \<open>the end offset of the match of \<open>\bstem(alt1|alt2|...)\b\<close> starting at \<open>i\<close>: the
      first alternative, in the regex's order, after which the closing \<open>\b\<close> holds\<close>
  "match_at pat s i =
     (if word_boundary s i then
        (case filter (\<lambda>alt. literal_at (fst pat @ alt) s i
                             \<and> word_boundary s (i + length (fst pat @ alt))) (snd pat) of
           [] \<Rightarrow> None
         | alt # _ \<Rightarrow> Some (i + length (fst pat @ alt)))
      else None)"

function finditer :: "pattern \<Rightarrow> string \<Rightarrow> nat \<Rightarrow> (string \<times> nat \<times> nat) list" where
  \<comment> \<open>\<open>re.finditer\<close> from offset \<open>pos\<close>: the non-overlapping matches, left to right, each
      as \<open>(group(0), start(), end())\<close>. The patterns here never match the empty string; the
      step past an empty match is only there to make the scan total.\<close>
  "finditer pat s pos =
     (if length s < pos then []
      else (case match_at pat s pos of
              None \<Rightarrow> finditer pat s (Suc pos)
            | Some e \<Rightarrow> (take (e - pos) (drop pos s), pos, e)
                        # finditer pat s (if e \<le> pos then Suc pos else e)))"
  by pat_completeness auto
termination
  by (relation "measure (\<lambda>(pat, s, pos). Suc (length s) - pos)") auto

definition search_any :: "string list \<Rightarrow> string \<Rightarrow> bool" where
  \<comment> \<open>\<open>re.search("(a|b|...)", s, flags=re.IGNORECASE)\<close> finds a match\<close>
  "search_any alts s = list_ex (\<lambda>alt. contains (lower alt) (lower s)) alts"

section \<open>Red-flag rules (\<open>red_flags.py\<close>)\<close>

record issue =
  match :: "string option"
  message :: string
  start_end :: "(nat \<times> nat) option"
  severity :: string

record annotation =
  paragraph_index :: int
  flag_text :: string
  comment :: string
  ann_severity :: string

definition issues_of :: "string \<Rightarrow> string \<Rightarrow> (string \<Rightarrow> string) \<Rightarrow> pattern \<Rightarrow> issue list" where
  \<comment> \<open>the inner loop \<open>for m in re.finditer(pat, text, flags=re.IGNORECASE): issues.append(...)\<close>\<close>
  "issues_of text sev msg pat =
     map (\<lambda>(g, s, e). \<lparr>match = Some g, message = msg g, start_end = Some (s, e), severity = sev\<rparr>)
       (finditer pat text 0)"

definition jurisdiction_patterns :: "(pattern \<times> string) list" where
  "jurisdiction_patterns =
     [((''UAE Federal '', [''Court'', ''Courts'', ''law'', ''laws'']),
       ''References UAE Federal Courts instead of ADGM Courts''),
      ((''DIFC'', ['''']), ''References DIFC instead of ADGM''),
      ((''United Arab Emirates Federal Courts'', ['''']),
       ''References UAE Federal Courts instead of ADGM Courts'')]"

definition detect_wrong_jurisdiction :: "string \<Rightarrow> issue list" where
  "detect_wrong_jurisdiction text =
     concat (map (\<lambda>(pat, msg). issues_of text ''High'' (\<lambda>_. msg) pat) jurisdiction_patterns)"

definition signature_alternatives :: "string list" where
  "signature_alternatives =
     [''signature'', ''signed by'', ''for and on behalf'', ''authorised signatory'', ''signature:'']"

definition detect_missing_signature_block :: "string list \<Rightarrow> issue list" where
  "detect_missing_signature_block paragraphs =
     (let joined = join ''\<newline>'' paragraphs in
      if search_any signature_alternatives joined then []
      else [\<lparr>match = None, message = ''No signature block detected in document.'',
              start_end = None, severity = ''High''\<rparr>])"

definition ambiguous_patterns :: "pattern list" where
  "ambiguous_patterns =
     [(''may'', ['''']), (''might'', ['''']), (''endeavour'', ['''']),
      (''best endeavours'', ['''']), (''best efforts'', [''''])]"

definition detect_ambiguous_language :: "string \<Rightarrow> issue list" where
  "detect_ambiguous_language text =
     concat (map (\<lambda>pat. issues_of text ''Medium''
                    (\<lambda>g. ''Ambiguous/non-binding phrase: '' @ [CHR 0x27] @ g @ [CHR 0x27]) pat)
               ambiguous_patterns)"

fun find_paragraph :: "string \<Rightarrow> string list \<Rightarrow> nat \<Rightarrow> int" where
  \<comment> \<open>the loop \<open>for i,p in enumerate(paragraphs)\<close> with its \<open>break\<close>, started at index \<open>i\<close>;
      \<open>-1\<close> is the initial \<open>para_idx\<close>, kept when no paragraph matches\<close>
  "find_paragraph m [] i = - 1"
| "find_paragraph m (p # ps) i =
     (if contains (lower m) (lower p) then int i else find_paragraph m ps (Suc i))"

definition map_issue :: "string list \<Rightarrow> issue \<Rightarrow> annotation" where
  \<comment> \<open>the body of \<open>for iss in issues\<close>; \<open>iss.get("match")\<close> is falsy for \<open>None\<close> and \<open>""\<close>\<close>
  "map_issue paragraphs iss =
     (let para_idx = (case match iss of
                        None \<Rightarrow> - 1
                      | Some m \<Rightarrow> if m = [] then - 1 else find_paragraph m paragraphs 0);
          para_idx = (if para_idx = - 1 then 0 else para_idx)
      in \<lparr>paragraph_index = para_idx,
          flag_text = (case match iss of None \<Rightarrow> [] | Some m \<Rightarrow> m),
          comment = message iss,
          ann_severity = severity iss\<rparr>)"

definition run_all_checks :: "string \<Rightarrow> string list \<Rightarrow> annotation list" where
  "run_all_checks text paragraphs =
     (let issues = detect_wrong_jurisdiction text
                   @ detect_ambiguous_language text
                   @ detect_missing_signature_block paragraphs
      in map (map_issue paragraphs) issues)"

definition first_containing :: "string \<Rightarrow> string list \<Rightarrow> int \<Rightarrow> bool" where
  \<comment> \<open>\<open>idx\<close> is the index of the first paragraph that contains \<open>m\<close>, ignoring case\<close>
  "first_containing m ps idx =
     (0 \<le> idx \<and> nat idx < length ps \<and> contains (lower m) (lower (ps ! nat idx))
      \<and> (\<forall>j < nat idx. \<not> contains (lower m) (lower (ps ! j))))"

section \<open>Values and exceptions of the retrieval pipeline (\<open>rag_utils.py\<close>)\<close>

datatype exn =
    FileNotFoundError string
  | RuntimeError string
  | ValueError string
  | AttributeError string
  | LibraryError string

text \<open>
  \<open>LibraryError\<close> stands for any \<open>Exception\<close> raised inside a library call; every
  exception carries the text that \<open>str(e)\<close> gives.
\<close>

fun str_exn :: "exn \<Rightarrow> string" where
  "str_exn (FileNotFoundError m) = m"
| "str_exn (RuntimeError m) = m"
| "str_exn (ValueError m) = m"
| "str_exn (AttributeError m) = m"
| "str_exn (LibraryError m) = m"

text \<open>
  The values a judgment can hold: the dictionary literals of the source and whatever
  \<open>json.loads\<close> returns. A float is kept as its literal text.
\<close>

datatype pyval =
    PyNone
  | PyBool bool
  | PyInt int
  | PyFloat string
  | PyStr string
  | PyList "pyval list"
  | PyDict "(string \<times> pyval) list"

definition whitespace :: string where
  "whitespace = [CHR 0x09, CHR 0x0A, CHR 0x0B, CHR 0x0C, CHR 0x0D,
                 CHR 0x1C, CHR 0x1D, CHR 0x1E, CHR 0x1F, CHR 0x20]"

definition is_space :: "char \<Rightarrow> bool" where
  "is_space c = (c \<in> set whitespace)"

definition strip :: "string \<Rightarrow> string" where
  \<comment> \<open>\<open>s.strip()\<close>\<close>
  "strip s = rev (dropWhile is_space (rev (dropWhile is_space s)))"

fun index_from :: "char \<Rightarrow> string \<Rightarrow> int \<Rightarrow> int" where
  "index_from c [] i = - 1"
| "index_from c (x # xs) i = (if x = c then i else index_from c xs (i + 1))"

definition find :: "string \<Rightarrow> char \<Rightarrow> int" where
  \<comment> \<open>\<open>s.find(c)\<close>: the lowest index of \<open>c\<close>, or \<open>-1\<close>\<close>
  "find s c = index_from c s 0"

definition rfind :: "string \<Rightarrow> char \<Rightarrow> int" where
  \<comment> \<open>\<open>s.rfind(c)\<close>: the highest index of \<open>c\<close>, or \<open>-1\<close>\<close>
  "rfind s c =
     (let r = index_from c (rev s) 0 in if r = - 1 then - 1 else int (length s) - 1 - r)"

definition clamp_index :: "nat \<Rightarrow> int \<Rightarrow> nat" where
  \<comment> \<open>a slice bound: a negative bound counts from the end, and both are clipped\<close>
  "clamp_index n i = (if i < 0 then nat (max 0 (int n + i)) else min n (nat i))"

definition slice :: "string \<Rightarrow> int \<Rightarrow> int \<Rightarrow> string" where
  \<comment> \<open>\<open>s[i:j]\<close>\<close>
  "slice s i j =
     (let a = clamp_index (length s) i; b = clamp_index (length s) j
      in take (b - a) (drop a s))"

section \<open>The generation backend and its tolerant invocation\<close>

text \<open>
  What one call of the backend does: it raises (with the text of the exception), returns a
  \<open>str\<close>, or returns another object (with the text that \<open>str()\<close> gives for it).
\<close>

datatype reply = Raises string | Str string | Object string

text \<open>
  The result of \<open>llm.generate([prompt])\<close>: \<open>gen_text\<close> is
  \<open>gen.generations[0][0].text\<close> when that chain and its \<open>strip\<close> do not raise, and
  \<open>gen_str\<close> is \<open>str(gen)\<close>.
\<close>

record generation =
  gen_text :: "string option"
  gen_str :: string

text \<open>
  The handle is an opaque object. \<open>direct\<close> is \<open>llm(prompt)\<close>; \<open>predict\<close> and
  \<open>generate\<close> are present when \<open>hasattr\<close> says so (\<open>generate\<close> raises with \<open>Inl\<close>);
  \<open>dunder_call\<close> is the later \<open>llm.__call__(prompt)\<close>, a second invocation whose outcome
  may differ from the first.
\<close>

record backend =
  direct :: "string \<Rightarrow> reply"
  predict :: "(string \<Rightarrow> reply) option"
  generate :: "(string list \<Rightarrow> string + generation) option"
  dunder_call :: "string \<Rightarrow> reply"

datatype convention = Direct | Predict | Generate | Call_again

text \<open>
  \<open>_call_llm_tolerant\<close>, one definition per \<open>try\<close> block, last block first. The result
  comes with the list of invocations made on the backend, in order.
\<close>

definition call_fallback ::
  "backend \<Rightarrow> string \<Rightarrow> convention list \<Rightarrow> (exn + string) \<times> convention list" where
  "call_fallback llm prompt made =
     (case dunder_call llm prompt of
        Raises e \<Rightarrow> (Inl (RuntimeError (''LLM call failed: '' @ e)), made @ [Call_again])
      | Str resp \<Rightarrow> (Inr (strip resp), made @ [Call_again])
      | Object resp \<Rightarrow> (Inr resp, made @ [Call_again]))"

definition call_generate ::
  "backend \<Rightarrow> string \<Rightarrow> convention list \<Rightarrow> (exn + string) \<times> convention list" where
  "call_generate llm prompt made =
     (case generate llm of
        None \<Rightarrow> call_fallback llm prompt made
      | Some g \<Rightarrow>
          (case g [prompt] of
             Inl e \<Rightarrow> call_fallback llm prompt (made @ [Generate])
           | Inr gen \<Rightarrow>
               (case gen_text gen of
                  Some t \<Rightarrow> (Inr (strip t), made @ [Generate])
                | None \<Rightarrow> (Inr (gen_str gen), made @ [Generate]))))"

definition call_predict ::
  "backend \<Rightarrow> string \<Rightarrow> convention list \<Rightarrow> (exn + string) \<times> convention list" where
  "call_predict llm prompt made =
     (case predict llm of
        None \<Rightarrow> call_generate llm prompt made
      | Some f \<Rightarrow>
          (case f prompt of
             Str resp \<Rightarrow> (Inr (strip resp), made @ [Predict])
           | _ \<Rightarrow> call_generate llm prompt (made @ [Predict])))"

definition call_llm_tolerant ::
  "backend option \<Rightarrow> string \<Rightarrow> (exn + string) \<times> convention list" where
  "call_llm_tolerant llm prompt =
     (case llm of
        None \<Rightarrow> (Inl (ValueError ''LLM instance is None''), [])
      | Some b \<Rightarrow>
          (case direct b prompt of
             Str resp \<Rightarrow> (Inr (strip resp), [Direct])
           | _ \<Rightarrow> call_predict b prompt [Direct]))"

text \<open>A convention fails when it is missing, raises, or returns something that is no text.\<close>

definition direct_fails :: "backend \<Rightarrow> string \<Rightarrow> bool" where
  "direct_fails llm prompt = (case direct llm prompt of Str _ \<Rightarrow> False | _ \<Rightarrow> True)"

definition predict_fails :: "backend \<Rightarrow> string \<Rightarrow> bool" where
  "predict_fails llm prompt =
     (case predict llm of
        None \<Rightarrow> True
      | Some f \<Rightarrow> (case f prompt of Str _ \<Rightarrow> False | _ \<Rightarrow> True))"

definition generate_fails :: "backend \<Rightarrow> string \<Rightarrow> bool" where
  "generate_fails llm prompt =
     (case generate llm of
        None \<Rightarrow> True
      | Some g \<Rightarrow> (case g [prompt] of Inl _ \<Rightarrow> True | Inr _ \<Rightarrow> False))"

definition attempts_before_fallback :: "backend \<Rightarrow> convention list" where
  \<comment> \<open>the invocations made when the three conventions all fail\<close>
  "attempts_before_fallback llm =
     [Direct] @ (case predict llm of None \<Rightarrow> [] | Some _ \<Rightarrow> [Predict])
              @ (case generate llm of None \<Rightarrow> [] | Some _ \<Rightarrow> [Generate])"

section \<open>The compliance check (\<open>check_clause_with_rag\<close>)\<close>

text \<open>
  A retrieved \<open>Document\<close> with its text and the \<open>source\<close> entry of its metadata, if
  any. The source also handles a retrieved object that has no \<open>page_content\<close>, by its
  \<open>str()\<close>.
\<close>

record document =
  page_content :: string
  source :: "string option"

datatype hit = Doc document | Other string

text \<open>
  The vector store is an object of the FAISS library; the check only calls its
  \<open>similarity_search(query, k=k)\<close>, which returns a list or raises.
\<close>

record vectorstore =
  similarity_search :: "string \<Rightarrow> int \<Rightarrow> exn + hit list"

definition tagged :: "hit \<Rightarrow> string" where
  \<comment> \<open>one element of the list that is joined into the context\<close>
  "tagged d =
     (case d of
        Doc x \<Rightarrow> page_content x @ ''\<newline>\<newline>[SOURCE: ''
                   @ (case source x of None \<Rightarrow> ''unknown'' | Some src \<Rightarrow> src) @ '']''
      | Other text \<Rightarrow> text)"

definition context_of :: "hit list \<Rightarrow> string" where
  "context_of docs = join ''\<newline>\<newline>---\<newline>\<newline>'' (map tagged docs)"

definition PROMPT_TEMPLATE :: "string \<Rightarrow> string \<Rightarrow> string" where
  \<comment> \<open>\<open>PROMPT_TEMPLATE.format(clause=clause, context=context)\<close>\<close>
  \<open>PROMPT_TEMPLATE clause context =
     ''You are an expert legal compliance assistant for ADGM jurisdiction.\<newline>''
     @ ''\<newline>''
     @ ''Task:\<newline>''
     @ ''- Given the user's clause and the ADGM context snippets below, determine compliance.\<newline>''
     @ ''- If non-compliant, explain the issue and provide one concrete improved clause suggestion.\<newline>''
     @ ''- If possible include the snippet's filename or short citation.\<newline>''
     @ ''\<newline>''
     @ ''Return a JSON object exactly with keys:\<newline>''
     @ ''{"compliant": true/false, "issue": "...", "suggestion": "...", "citation": "..."}\<newline>''
     @ ''\<newline>''
     @ ''User clause:\<newline>''
     @ clause @ ''\<newline>''
     @ ''\<newline>''
     @ ''Context (relevant snippets):\<newline>''
     @ context @ ''\<newline>''\<close>

definition judgment_of :: "pyval \<Rightarrow> pyval \<Rightarrow> pyval" where
  \<comment> \<open>the dictionary literal with the keys \<open>compliant\<close>, \<open>issue\<close>, \<open>suggestion\<close> and
      \<open>citation\<close>, where \<open>compliant\<close> and \<open>suggestion\<close> are \<open>None\<close>\<close>
  "judgment_of issue_value citation =
     PyDict [(''compliant'', PyNone), (''issue'', issue_value),
             (''suggestion'', PyNone), (''citation'', citation)]"

definition extract_json :: "(string \<Rightarrow> pyval option) \<Rightarrow> string \<Rightarrow> pyval option" where
  \<comment> \<open>the second \<open>try\<close> block: \<open>json.loads(raw[raw.find("{") : raw.rfind("}") + 1])\<close>;
      \<open>None\<close> when \<open>json.loads\<close> raises\<close>
  \<open>extract_json json_loads raw =
     (let start = find raw (CHR ''{'');
          end_index = rfind raw (CHR ''}'') + 1;
          json_text = slice raw start end_index
      in json_loads json_text)\<close>

text \<open>
  \<open>json.loads\<close> is a parameter: a function from the text to the parsed value, \<open>None\<close>
  when it raises. Calling a method on the absent store (\<open>None\<close>) raises
  \<open>AttributeError\<close>.
\<close>

definition check_clause_with_rag ::
  "(string \<Rightarrow> pyval option) \<Rightarrow> string \<Rightarrow> vectorstore option \<Rightarrow> backend option \<Rightarrow> int
     \<Rightarrow> exn + pyval" where
  "check_clause_with_rag json_loads clause_text store llm k =
     (case store of
        None \<Rightarrow>
          Inl (AttributeError
                 (CHR 0x27 # ''NoneType'' @ CHR 0x27 # '' object has no attribute ''
                  @ CHR 0x27 # ''similarity_search'' @ [CHR 0x27]))
      | Some vs \<Rightarrow>
          (case similarity_search vs clause_text k of
             Inl e \<Rightarrow> Inl e
           | Inr docs \<Rightarrow>
               (let context = context_of docs in
                case llm of
                  None \<Rightarrow> Inr (judgment_of PyNone (PyStr context))
                | Some b \<Rightarrow>
                    (let prompt = PROMPT_TEMPLATE clause_text context in
                     case fst (call_llm_tolerant (Some b) prompt) of
                       Inl e \<Rightarrow>
                         Inr (judgment_of (PyStr (''LLM error: '' @ str_exn e)) (PyStr context))
                     | Inr raw \<Rightarrow>
                         (case extract_json json_loads raw of
                            Some data \<Rightarrow> Inr data
                          | None \<Rightarrow> Inr (judgment_of (PyStr raw) (PyStr context)))))))"

definition has_key :: "pyval \<Rightarrow> string \<Rightarrow> bool" where
  \<comment> \<open>\<open>key in data\<close> for a dictionary; no other value has keys\<close>
  "has_key data key = (case data of PyDict items \<Rightarrow> key \<in> set (map fst items) | _ \<Rightarrow> False)"

section \<open>Retrieval\<close>

text \<open>
  Modelled from the spec: the Retriever (section 4.3). The source delegates retrieval to
  \<open>similarity_search\<close> of the FAISS library, which is not part of the repository. The
  store is the list of its fragments in insertion order, \<open>score query f\<close> is the
  similarity of fragment \<open>f\<close> to the query, and the result is the first \<open>k\<close> pairs of
  the fragments ordered by decreasing score, fragments of equal score in insertion order.
\<close>

fun place :: "'a \<times> 's::linorder \<Rightarrow> ('a \<times> 's) list \<Rightarrow> ('a \<times> 's) list" where
  "place x [] = [x]"
| "place x (y # ys) = (if snd y \<le> snd x then x # y # ys else y # place x ys)"

fun ranked :: "('a \<times> 's::linorder) list \<Rightarrow> ('a \<times> 's) list" where
  "ranked [] = []"
| "ranked (x # xs) = place x (ranked xs)"

definition retrieve ::
  "(string \<Rightarrow> 'a \<Rightarrow> 's::linorder) \<Rightarrow> 'a list \<Rightarrow> string \<Rightarrow> nat \<Rightarrow> ('a \<times> 's) list" where
  "retrieve score store query k = take k (ranked (map (\<lambda>f. (f, score query f)) store))"

definition strictly_descending :: "('a \<times> 's::linorder) list \<Rightarrow> bool" where
  "strictly_descending xs = sorted_wrt (\<lambda>p q. snd q < snd p) xs"

definition descending :: "('a \<times> 's::linorder) list \<Rightarrow> bool" where
  "descending xs = sorted_wrt (\<lambda>p q. snd q \<le> snd p) xs"

definition with_score :: "'s \<Rightarrow> ('a \<times> 's) list \<Rightarrow> 'a list" where
  \<comment> \<open>the fragments of a result that have the given score, in the order of the result\<close>
  "with_score v xs = map fst (filter (\<lambda>p. snd p = v) xs)"

text \<open>
  Modelled from the spec: a loaded Index Store seen through the call the source makes,
  \<open>similarity_search(query, k=k)\<close>, which returns the retrieved documents without their
  scores.
\<close>

definition index_store ::
  "(string \<Rightarrow> document \<Rightarrow> 's::linorder) \<Rightarrow> document list \<Rightarrow> vectorstore" where
  "index_store score fragments =
     \<lparr>similarity_search =
        (\<lambda>query k. Inr (map (\<lambda>p. Doc (fst p)) (retrieve score fragments query (nat k))))\<rparr>"

section \<open>Building and loading the index (\<open>build_vector_store\<close>, \<open>load_vector_store\<close>)\<close>

definition VECTORSTORE_DIR :: string where
  "VECTORSTORE_DIR = ''legal_refs/faiss_store''"

definition LEGAL_REFS_DIR :: string where
  "LEGAL_REFS_DIR = ''legal_refs''"

definition HF_EMBEDDING_MODEL :: string where
  "HF_EMBEDDING_MODEL = ''all-MiniLM-L6-v2''"

definition path_join :: "string \<Rightarrow> string \<Rightarrow> string" where
  \<comment> \<open>\<open>os.path.join(a, b)\<close> on POSIX\<close>
  "path_join a b =
     (if startswith b ''/'' then b
      else if a = [] \<or> endswith a ''/'' then a @ b
      else a @ ''/'' @ b)"

definition dirname :: "string \<Rightarrow> string" where
  \<comment> \<open>\<open>os.path.dirname(p)\<close> on POSIX\<close>
  "dirname p =
     (let head = take (nat (rfind p (CHR ''/'') + 1)) p in
      if head \<noteq> [] \<and> head \<noteq> replicate (length head) (CHR ''/'')
      then rev (dropWhile (\<lambda>c. c = CHR ''/'') (rev head))
      else head)"

text \<open>
  The file system and the libraries are the environment of the two functions. \<open>'w\<close> is
  the state of the file system, \<open>'emb\<close> an embedding model, \<open>'vs\<close> a vector store.
  Reading operations take the state; \<open>makedirs\<close> (with \<open>exist_ok=True\<close>) and
  \<open>save_local\<close> return the new state, with the exception if they raise.
\<close>

record ('w, 'emb, 'vs) environment =
  path_exists :: "'w \<Rightarrow> string \<Rightarrow> bool"
  listdir :: "'w \<Rightarrow> string \<Rightarrow> exn + string list"
  load_pdf :: "'w \<Rightarrow> string \<Rightarrow> exn + document list"
  load_text :: "'w \<Rightarrow> string \<Rightarrow> exn + document list"
  embeddings :: "string \<Rightarrow> exn + 'emb"
  split_documents :: "document list \<Rightarrow> exn + document list"
  from_documents :: "document list \<Rightarrow> 'emb \<Rightarrow> exn + 'vs"
  makedirs :: "'w \<Rightarrow> string \<Rightarrow> exn option \<times> 'w"
  save_local :: "'w \<Rightarrow> 'vs \<Rightarrow> string \<Rightarrow> exn option \<times> 'w"
  load_local :: "'w \<Rightarrow> string \<Rightarrow> 'emb \<Rightarrow> exn + 'vs"

fun load_folder ::
  "('w, 'emb, 'vs) environment \<Rightarrow> 'w \<Rightarrow> string \<Rightarrow> string list \<Rightarrow> document list
     \<Rightarrow> exn + document list" where
  \<comment> \<open>the loop \<open>for fname in os.listdir(legal_folder)\<close>, with \<open>docs\<close> as accumulator\<close>
  "load_folder env w legal_folder [] docs = Inr docs"
| "load_folder env w legal_folder (fname # rest) docs =
     (let path = path_join legal_folder fname in
      if endswith (lower fname) ''.pdf'' then
        (case load_pdf env w path of
           Inl e \<Rightarrow> Inl e
         | Inr pages \<Rightarrow> load_folder env w legal_folder rest (docs @ pages))
      else if endswith (lower fname) ''.txt'' then
        (case load_text env w path of
           Inl e \<Rightarrow> Inl e
         | Inr loaded \<Rightarrow> load_folder env w legal_folder rest (docs @ loaded))
      else load_folder env w legal_folder rest docs)"

definition build_vector_store ::
  "('w, 'emb, 'vs) environment \<Rightarrow> 'w \<Rightarrow> string \<Rightarrow> string \<Rightarrow> string \<Rightarrow> (exn + 'vs) \<times> 'w" where
  "build_vector_store env w legal_folder save_dir hf_model =
     (if \<not> path_exists env w legal_folder then
        (Inl (FileNotFoundError (''Legal refs folder not found: '' @ legal_folder)), w)
      else
        (case embeddings env hf_model of
           Inl e \<Rightarrow> (Inl (RuntimeError (''Failed to initialize embeddings: '' @ str_exn e)), w)
         | Inr emb \<Rightarrow>
        (case listdir env w legal_folder of
           Inl e \<Rightarrow> (Inl e, w)
         | Inr names \<Rightarrow>
        (case load_folder env w legal_folder names [] of
           Inl e \<Rightarrow> (Inl e, w)
         | Inr docs \<Rightarrow>
        if docs = [] then
          (Inl (ValueError ''No legal reference documents found in legal_refs/''), w)
        else
        (case split_documents env docs of
           Inl e \<Rightarrow> (Inl e, w)
         | Inr chunks \<Rightarrow>
        (case from_documents env chunks emb of
           Inl e \<Rightarrow> (Inl (RuntimeError (''Failed to build FAISS vectorstore: '' @ str_exn e)), w)
         | Inr vs \<Rightarrow>
        (case makedirs env w (dirname save_dir) of
           (Some e, w1) \<Rightarrow> (Inl e, w1)
         | (None, w1) \<Rightarrow>
        (case save_local env w1 vs save_dir of
           (Some e, w2) \<Rightarrow>
             (Inl (RuntimeError (''Failed to save FAISS vectorstore: '' @ str_exn e)), w2)
         | (None, w2) \<Rightarrow> (Inr vs, w2)))))))))"

definition load_vector_store ::
  "('w, 'emb, 'vs) environment \<Rightarrow> 'w \<Rightarrow> string \<Rightarrow> string \<Rightarrow> exn + 'vs" where
  "load_vector_store env w save_dir hf_model =
     (if \<not> path_exists env w save_dir then
        Inl (FileNotFoundError ''FAISS vectorstore not found. Run build_vector_store() first.'')
      else
        (case embeddings env hf_model of
           Inl e \<Rightarrow> Inl e
         | Inr emb \<Rightarrow> load_local env w save_dir emb))"

definition built_in_memory ::
  "('w, 'emb, 'vs) environment \<Rightarrow> 'w \<Rightarrow> string \<Rightarrow> string \<Rightarrow> 'vs \<Rightarrow> bool" where
  \<comment> \<open>every stage before persisting succeeded and produced the store \<open>vs\<close>\<close>
  "built_in_memory env w legal_folder hf_model vs =
     (path_exists env w legal_folder \<and>
      (case embeddings env hf_model of
         Inl _ \<Rightarrow> False
       | Inr emb \<Rightarrow>
      (case listdir env w legal_folder of
         Inl _ \<Rightarrow> False
       | Inr names \<Rightarrow>
      (case load_folder env w legal_folder names [] of
         Inl _ \<Rightarrow> False
       | Inr docs \<Rightarrow>
           docs \<noteq> [] \<and>
           (case split_documents env docs of
              Inl _ \<Rightarrow> False
            | Inr chunks \<Rightarrow> from_documents env chunks emb = Inr vs)))))"

section \<open>Sample inputs\<close>

text \<open>
  Concrete backends, a parser and an environment on which the definitions above are
  evaluated. The backends answer every prompt alike.
\<close>

definition text_backend :: "string \<Rightarrow> backend" where
  \<comment> \<open>a callable that returns the given text\<close>
  "text_backend answer =
     \<lparr>direct = (\<lambda>_. Str answer), predict = None, generate = None,
      dunder_call = (\<lambda>_. Str answer)\<rparr>"

definition failing_backend :: backend where
  \<comment> \<open>a handle with all three conventions, each of which raises\<close>
  "failing_backend =
     \<lparr>direct = (\<lambda>_. Raises ''timeout''), predict = Some (\<lambda>_. Raises ''timeout''),
      generate = Some (\<lambda>_. Inl ''timeout''), dunder_call = (\<lambda>_. Raises ''timeout'')\<rparr>"

definition chat_backend :: backend where
  \<comment> \<open>a chat model: a direct call returns a message object, \<open>predict\<close> returns text\<close>
  "chat_backend =
     \<lparr>direct = (\<lambda>_. Object ''content= yes''), predict = Some (\<lambda>_. Str '' yes ''),
      generate = Some (\<lambda>_. Inr \<lparr>gen_text = Some ''yes'', gen_str = ''generations''\<rparr>),
      dunder_call = (\<lambda>_. Object ''content= yes'')\<rparr>"

definition generate_backend :: backend where
  \<comment> \<open>a handle that is not callable and only has \<open>generate\<close>\<close>
  "generate_backend =
     \<lparr>direct = (\<lambda>_. Raises ''not callable''), predict = None,
      generate = Some (\<lambda>_. Inr \<lparr>gen_text = Some ''no\<newline>'', gen_str = ''generations''\<rparr>),
      dunder_call = (\<lambda>_. Raises ''not callable'')\<rparr>"

definition empty_object_loads :: "string \<Rightarrow> pyval option" where
  \<comment> \<open>\<open>json.loads\<close> restricted to the one text \<open>{}\<close>, the empty dictionary; it rejects
      every other text\<close>
  "empty_object_loads json_text = (if json_text = ''{}'' then Some (PyDict []) else None)"

definition adgm_fragment :: document where
  "adgm_fragment =
     \<lparr>page_content = ''ADGM Courts have exclusive jurisdiction.'', source = Some ''rules.txt''\<rparr>"

definition flat_score :: "string \<Rightarrow> document \<Rightarrow> int" where
  \<comment> \<open>every fragment is equally similar to every query\<close>
  "flat_score query f = 1"

definition length_score :: "string \<Rightarrow> document \<Rightarrow> int" where
  \<comment> \<open>longer fragments score higher\<close>
  "length_score query f = int (length (page_content f))"

definition difc_fragment :: document where
  "difc_fragment =
     \<lparr>page_content = ''DIFC Courts are a separate jurisdiction.'', source = None\<rparr>"

definition short_fragment :: document where
  "short_fragment = \<lparr>page_content = ''See the ADGM rules.'', source = Some ''notes.txt''\<rparr>"

definition sample_store :: vectorstore where
  "sample_store = index_store flat_score [adgm_fragment]"

definition sample_context :: string where
  \<comment> \<open>the context retrieved from \<open>sample_store\<close>\<close>
  "sample_context = ''ADGM Courts have exclusive jurisdiction.\<newline>\<newline>[SOURCE: rules.txt]''"

text \<open>
  A file system with folders (each with the names it lists), text files and persisted
  indexes. An embedding model is its identifier; a vector store is its fragments with the
  embedding model it was given. The persisted index holds the fragments only: as the
  spec's design notes record, the source keeps no embedding model identifier with the
  index.
\<close>

record sample_world =
  folders :: "(string \<times> string list) list"
  contents :: "(string \<times> string) list"
  persisted :: "(string \<times> document list) list"

definition read_file :: "sample_world \<Rightarrow> string \<Rightarrow> exn + document list" where
  "read_file w path =
     (case map_of (contents w) path of
        None \<Rightarrow> Inl (LibraryError ''cannot read file'')
      | Some body \<Rightarrow> Inr [\<lparr>page_content = body, source = Some path\<rparr>])"

definition sample_env :: "(sample_world, string, document list \<times> string) environment" where
  "sample_env =
     \<lparr>path_exists = (\<lambda>w path. path \<in> set (map fst (folders w) @ map fst (persisted w))),
      listdir = (\<lambda>w path. case map_of (folders w) path of
                             None \<Rightarrow> Inl (LibraryError ''not a directory'')
                           | Some names \<Rightarrow> Inr names),
      load_pdf = read_file,
      load_text = read_file,
      embeddings = (\<lambda>model_name. if model_name = [] then Inl (LibraryError ''no such model'')
                                   else Inr model_name),
      split_documents = (\<lambda>docs. Inr docs),
      from_documents = (\<lambda>chunks emb. Inr (chunks, emb)),
      makedirs = (\<lambda>w path. if path = [] then (Some (FileNotFoundError ''No such file or directory''), w)
                             else if path \<in> set (map fst (folders w)) then (None, w)
                             else (None, w\<lparr>folders := folders w @ [(path, [])]\<rparr>)),
      save_local = (\<lambda>w vs path.
                      (None, w\<lparr>persisted := (path, fst vs) # filter (\<lambda>p. fst p \<noteq> path) (persisted w)\<rparr>)),
      load_local = (\<lambda>w path emb. case map_of (persisted w) path of
                                     None \<Rightarrow> Inl (LibraryError ''no index files'')
                                   | Some docs \<Rightarrow> Inr (docs, emb))\<rparr>"

definition empty_folder_world :: sample_world where
  "empty_folder_world = \<lparr>folders = [(''legal_refs'', [])], contents = [], persisted = []\<rparr>"

definition one_file_world :: sample_world where
  "one_file_world =
     \<lparr>folders = [(''legal_refs'', [''rules.txt''])],
      contents = [(''legal_refs/rules.txt'', ''ADGM Courts have exclusive jurisdiction.'')],
      persisted = []\<rparr>"

definition rules_document :: document where
  \<comment> \<open>what the text loader yields for the one file of \<open>one_file_world\<close>\<close>
  "rules_document =
     \<lparr>page_content = ''ADGM Courts have exclusive jurisdiction.'',
      source = Some ''legal_refs/rules.txt''\<rparr>"

definition built_world :: sample_world where
  \<comment> \<open>the file system after an index has been built under the default embedding model\<close>
  "built_world =
     snd (build_vector_store sample_env one_file_world ''legal_refs'' ''legal_refs/faiss_store''
            ''all-MiniLM-L6-v2'')"

section \<open>The tolerant invocation\<close>

lemma call_fallback_error:
  "fst (call_fallback b p made) = Inl e \<Longrightarrow>
     (\<exists>m. dunder_call b p = Raises m \<and> e = RuntimeError (''LLM call failed: '' @ m))
     \<and> snd (call_fallback b p made) = made @ [Call_again]"
  by (auto simp: call_fallback_def split: reply.splits)

lemma call_generate_error:
  "fst (call_generate b p made) = Inl e \<Longrightarrow>
     generate_fails b p
     \<and> (\<exists>m. dunder_call b p = Raises m \<and> e = RuntimeError (''LLM call failed: '' @ m))
     \<and> snd (call_generate b p made) =
           made @ (case generate b of None \<Rightarrow> [] | Some _ \<Rightarrow> [Generate]) @ [Call_again]"
  by (auto simp: call_generate_def generate_fails_def
           split: option.splits sum.splits dest: call_fallback_error)

lemma call_predict_error:
  "fst (call_predict b p made) = Inl e \<Longrightarrow>
     predict_fails b p \<and> generate_fails b p
     \<and> (\<exists>m. dunder_call b p = Raises m \<and> e = RuntimeError (''LLM call failed: '' @ m))
     \<and> snd (call_predict b p made) =
           made @ (case predict b of None \<Rightarrow> [] | Some _ \<Rightarrow> [Predict])
                @ (case generate b of None \<Rightarrow> [] | Some _ \<Rightarrow> [Generate]) @ [Call_again]"
  by (auto simp: call_predict_def predict_fails_def
           split: option.splits reply.splits dest: call_generate_error)

lemma call_llm_tolerant_error:
  "fst (call_llm_tolerant (Some b) p) = Inl e \<Longrightarrow>
     direct_fails b p \<and> predict_fails b p \<and> generate_fails b p
     \<and> (\<exists>m. dunder_call b p = Raises m \<and> e = RuntimeError (''LLM call failed: '' @ m))
     \<and> snd (call_llm_tolerant (Some b) p) = attempts_before_fallback b @ [Call_again]"
  by (auto simp: call_llm_tolerant_def direct_fails_def attempts_before_fallback_def
           split: reply.splits dest: call_predict_error)

lemma call_llm_tolerant_direct:
  "direct b p = Str s \<Longrightarrow> call_llm_tolerant (Some b) p = (Inr (strip s), [Direct])"
  by (simp add: call_llm_tolerant_def)

lemma call_llm_tolerant_predict:
  "direct_fails b p \<Longrightarrow> predict b = Some f \<Longrightarrow> f p = Str s \<Longrightarrow>
     call_llm_tolerant (Some b) p = (Inr (strip s), [Direct, Predict])"
  by (auto simp: call_llm_tolerant_def direct_fails_def call_predict_def split: reply.splits)

lemma call_llm_tolerant_generate:
  "direct_fails b p \<Longrightarrow> predict_fails b p \<Longrightarrow> generate b = Some g \<Longrightarrow> g [p] = Inr gen \<Longrightarrow>
   gen_text gen = Some t \<Longrightarrow>
     call_llm_tolerant (Some b) p = (Inr (strip t), attempts_before_fallback b)"
  by (auto simp: call_llm_tolerant_def direct_fails_def predict_fails_def call_predict_def
                 call_generate_def attempts_before_fallback_def
           split: reply.splits option.splits)

text \<open>
  Claim C2. For every present backend handle and prompt, the adapter invokes the handle
  directly, then its \<open>predict\<close>, then its \<open>generate\<close>, in this order, and returns the
  text of the first convention that yields a string without raising, with leading and
  trailing whitespace removed (for \<open>generate\<close>, the text of the first nested
  generation). It raises only after every convention has been attempted and has failed
  and the closing second invocation has raised too; the error is \<open>RuntimeError\<close> with
  \<open>LLM call failed:\<close> and the text of that last failure. An absent handle raises
  \<open>ValueError\<close> at once, with no invocation.
\<close>

theorem call_llm_tolerant_priority:
  "(\<forall>s. direct b p = Str s \<longrightarrow> call_llm_tolerant (Some b) p = (Inr (strip s), [Direct]))
   \<and> (\<forall>f s. direct_fails b p \<and> predict b = Some f \<and> f p = Str s \<longrightarrow>
          call_llm_tolerant (Some b) p = (Inr (strip s), [Direct, Predict]))
   \<and> (\<forall>g gen t. direct_fails b p \<and> predict_fails b p \<and> generate b = Some g
          \<and> g [p] = Inr gen \<and> gen_text gen = Some t \<longrightarrow>
          call_llm_tolerant (Some b) p = (Inr (strip t), attempts_before_fallback b))
   \<and> (\<forall>e. fst (call_llm_tolerant (Some b) p) = Inl e \<longrightarrow>
          direct_fails b p \<and> predict_fails b p \<and> generate_fails b p
          \<and> (\<exists>m. dunder_call b p = Raises m \<and> e = RuntimeError (''LLM call failed: '' @ m))
          \<and> snd (call_llm_tolerant (Some b) p) = attempts_before_fallback b @ [Call_again])
   \<and> call_llm_tolerant None p = (Inl (ValueError ''LLM instance is None''), [])"
proof -
  have "call_llm_tolerant None p = (Inl (ValueError ''LLM instance is None''), [])"
    by (simp add: call_llm_tolerant_def)
  then show ?thesis
    using call_llm_tolerant_direct call_llm_tolerant_predict call_llm_tolerant_generate
          call_llm_tolerant_error
    by blast
qed

theorem call_llm_tolerant_priority_witness:
  "call_llm_tolerant (Some (text_backend '' ok '')) ''p'' = (Inr (strip '' ok ''), [Direct])
   \<and> call_llm_tolerant (Some chat_backend) ''p'' = (Inr (strip '' yes ''), [Direct, Predict])
   \<and> call_llm_tolerant (Some generate_backend) ''p'' = (Inr (strip ''no\<newline>''), [Direct, Generate])
   \<and> fst (call_llm_tolerant (Some failing_backend) ''p'') = Inl (RuntimeError ''LLM call failed: timeout'')
   \<and> snd (call_llm_tolerant (Some failing_backend) ''p'') = [Direct, Predict, Generate, Call_again]"
proof -
  have a: "direct (text_backend '' ok '') ''p'' = Str '' ok ''"
    by (simp add: text_backend_def)
  have b: "direct_fails chat_backend ''p'' \<and> predict chat_backend = Some (\<lambda>_. Str '' yes '')"
    by (simp add: chat_backend_def direct_fails_def)
  have c: "direct_fails generate_backend ''p'' \<and> predict_fails generate_backend ''p''
           \<and> generate generate_backend
                = Some (\<lambda>_. Inr \<lparr>gen_text = Some ''no\<newline>'', gen_str = ''generations''\<rparr>)
           \<and> attempts_before_fallback generate_backend = [Direct, Generate]"
    by (simp add: generate_backend_def direct_fails_def predict_fails_def attempts_before_fallback_def)
  have d: "fst (call_llm_tolerant (Some failing_backend) ''p'')
             = Inl (RuntimeError ''LLM call failed: timeout'')
           \<and> attempts_before_fallback failing_backend = [Direct, Predict, Generate]"
    by (simp add: failing_backend_def call_llm_tolerant_def call_predict_def call_generate_def
                  call_fallback_def attempts_before_fallback_def)
  note t1 = call_llm_tolerant_priority [of "text_backend '' ok ''" "''p''"]
  note t2 = call_llm_tolerant_priority [of chat_backend "''p''"]
  note t3 = call_llm_tolerant_priority [of generate_backend "''p''"]
  note t4 = call_llm_tolerant_priority [of failing_backend "''p''"]
  have 1: "call_llm_tolerant (Some (text_backend '' ok '')) ''p'' = (Inr (strip '' ok ''), [Direct])"
    using t1 a by blast
  have 2: "call_llm_tolerant (Some chat_backend) ''p'' = (Inr (strip '' yes ''), [Direct, Predict])"
    using t2 b by blast
  have 3: "call_llm_tolerant (Some generate_backend) ''p'' = (Inr (strip ''no\<newline>''), [Direct, Generate])"
    using t3 c by (metis generation.select_convs(1))
  have 4: "snd (call_llm_tolerant (Some failing_backend) ''p'') = [Direct, Predict, Generate, Call_again]"
    using t4 d by simp
  show ?thesis using 1 2 3 4 d by simp
qed

text \<open>
  The adapter does not return the text of the convention as it is: a backend whose direct
  call answers \<open>ok\<close> between two spaces makes it return \<open>ok\<close> alone.
\<close>

theorem call_llm_tolerant_strips_counterexample:
  "direct (text_backend '' ok '') ''p'' = Str '' ok ''
   \<and> fst (call_llm_tolerant (Some (text_backend '' ok '')) ''p'') = Inr ''ok''
   \<and> fst (call_llm_tolerant (Some (text_backend '' ok '')) ''p'') \<noteq> Inr '' ok ''"
  by code_simp

section \<open>The judgment\<close>

lemma check_clause_present:
  "similarity_search vs clause k = Inr docs \<Longrightarrow>
   check_clause_with_rag json_loads clause (Some vs) (Some b) k =
     (case fst (call_llm_tolerant (Some b) (PROMPT_TEMPLATE clause (context_of docs))) of
        Inl e \<Rightarrow> Inr (judgment_of (PyStr (''LLM error: '' @ str_exn e)) (PyStr (context_of docs)))
      | Inr raw \<Rightarrow>
          (case extract_json json_loads raw of
             Some data \<Rightarrow> Inr data
           | None \<Rightarrow> Inr (judgment_of (PyStr raw) (PyStr (context_of docs)))))"
  by (simp add: check_clause_with_rag_def Let_def)

lemma sample_search:
  "similarity_search sample_store clause 3 = Inr [Doc adgm_fragment]"
  by (simp add: sample_store_def index_store_def retrieve_def flat_score_def)

lemma sample_context_eq: "context_of [Doc adgm_fragment] = sample_context"
  by (simp add: context_of_def tagged_def adgm_fragment_def sample_context_def)

lemma failing_backend_raises:
  "fst (call_llm_tolerant (Some failing_backend) prompt) = Inl (RuntimeError ''LLM call failed: timeout'')"
  by (simp add: failing_backend_def call_llm_tolerant_def call_predict_def call_generate_def
                call_fallback_def)

lemma strip_plain: "strip ''I cannot assess this.'' = ''I cannot assess this.''"
  by code_simp

lemma text_backend_answers:
  "fst (call_llm_tolerant (Some (text_backend answer)) prompt) = Inr (strip answer)"
  by (simp add: text_backend_def call_llm_tolerant_def)

lemma no_braces:
  "empty_object_loads (slice ''I cannot assess this.'' (find ''I cannot assess this.'' (CHR ''{''))
                         (rfind ''I cannot assess this.'' (CHR ''}'') + 1)) = None"
  by code_simp

text \<open>
  Claim C1. For every clause, every store whose retrieval returns and every backend
  handle: if the adapter raises, the judgment has \<open>compliant\<close> and \<open>suggestion\<close>
  \<open>None\<close>, the issue \<open>LLM error:\<close> with the text of the error, and the retrieved
  context as citation; if no JSON value can be read from the response between its first
  \<open>{\<close> and its last \<open>}\<close>, the judgment is the same with the response text as issue.
  In every case the check returns a value: nothing raised by generation or parsing
  reaches the caller.
\<close>

theorem check_clause_absorbs_failures:
  "similarity_search vs clause k = Inr docs \<Longrightarrow>
   (\<forall>e. fst (call_llm_tolerant (Some b) (PROMPT_TEMPLATE clause (context_of docs))) = Inl e \<longrightarrow>
      check_clause_with_rag json_loads clause (Some vs) (Some b) k =
        Inr (PyDict [(''compliant'', PyNone), (''issue'', PyStr (''LLM error: '' @ str_exn e)),
                     (''suggestion'', PyNone), (''citation'', PyStr (context_of docs))]))
   \<and> (\<forall>raw. fst (call_llm_tolerant (Some b) (PROMPT_TEMPLATE clause (context_of docs))) = Inr raw
         \<and> json_loads (slice raw (find raw (CHR ''{'')) (rfind raw (CHR ''}'') + 1)) = None \<longrightarrow>
      check_clause_with_rag json_loads clause (Some vs) (Some b) k =
        Inr (PyDict [(''compliant'', PyNone), (''issue'', PyStr raw),
                     (''suggestion'', PyNone), (''citation'', PyStr (context_of docs))]))
   \<and> (\<exists>data. check_clause_with_rag json_loads clause (Some vs) (Some b) k = Inr data)"
  by (auto simp: check_clause_present judgment_of_def extract_json_def Let_def
           split: sum.splits option.splits)

theorem check_clause_absorbs_failures_witness:
  "check_clause_with_rag empty_object_loads ''Governed by DIFC courts.'' (Some sample_store)
       (Some failing_backend) 3 =
     Inr (PyDict [(''compliant'', PyNone), (''issue'', PyStr ''LLM error: LLM call failed: timeout''),
                  (''suggestion'', PyNone), (''citation'', PyStr sample_context)])
   \<and> check_clause_with_rag empty_object_loads ''Governed by DIFC courts.'' (Some sample_store)
       (Some (text_backend ''I cannot assess this.'')) 3 =
     Inr (PyDict [(''compliant'', PyNone), (''issue'', PyStr ''I cannot assess this.''),
                  (''suggestion'', PyNone), (''citation'', PyStr sample_context)])"
proof -
  note s = sample_search [of "''Governed by DIFC courts.''"]
  have a: "check_clause_with_rag empty_object_loads ''Governed by DIFC courts.'' (Some sample_store)
       (Some failing_backend) 3 =
     Inr (PyDict [(''compliant'', PyNone), (''issue'', PyStr ''LLM error: LLM call failed: timeout''),
                  (''suggestion'', PyNone), (''citation'', PyStr sample_context)])"
    using check_clause_absorbs_failures [OF s, of failing_backend empty_object_loads]
          failing_backend_raises
    by (simp add: sample_context_eq)
  have b: "check_clause_with_rag empty_object_loads ''Governed by DIFC courts.'' (Some sample_store)
       (Some (text_backend ''I cannot assess this.'')) 3 =
     Inr (PyDict [(''compliant'', PyNone), (''issue'', PyStr ''I cannot assess this.''),
                  (''suggestion'', PyNone), (''citation'', PyStr sample_context)])"
    using check_clause_absorbs_failures [OF s, of "text_backend ''I cannot assess this.''" empty_object_loads]
          text_backend_answers [of "''I cannot assess this.''"] no_braces
    by (simp add: sample_context_eq strip_plain)
  show ?thesis using a b by simp
qed

lemma strip_braces: "strip ''Here: {} '' = ''Here: {}''"
  by code_simp

lemma braces_slice2:
  "slice ''Here: {}'' (find ''Here: {}'' (CHR ''{'')) (rfind ''Here: {}'' (CHR ''}'') + 1) = ''{}''"
  by code_simp

text \<open>
  Claim C9. Whenever the text between the first \<open>{\<close> and the last \<open>}\<close> of the response
  parses, the check returns the parsed value as it is: the keys are not checked and the
  retrieved context is not attached. A response \<open>{}\<close> therefore gives a judgment with
  none of the keys \<open>compliant\<close>, \<open>issue\<close>, \<open>suggestion\<close> and \<open>citation\<close>.
\<close>

theorem check_clause_returns_parsed_verbatim:
  "similarity_search vs clause k = Inr docs \<Longrightarrow>
   (\<forall>raw data. fst (call_llm_tolerant (Some b) (PROMPT_TEMPLATE clause (context_of docs))) = Inr raw
         \<and> json_loads (slice raw (find raw (CHR ''{'')) (rfind raw (CHR ''}'') + 1)) = Some data \<longrightarrow>
      check_clause_with_rag json_loads clause (Some vs) (Some b) k = Inr data)
   \<and> (json_loads ''{}'' = Some (PyDict []) \<longrightarrow>
        (\<exists>data. check_clause_with_rag json_loads clause (Some vs) (Some (text_backend ''{}'')) k = Inr data
           \<and> \<not> has_key data ''compliant'' \<and> \<not> has_key data ''issue''
           \<and> \<not> has_key data ''suggestion'' \<and> \<not> has_key data ''citation''))"
proof (intro conjI allI impI)
  fix raw data
  assume "similarity_search vs clause k = Inr docs"
    and "fst (call_llm_tolerant (Some b) (PROMPT_TEMPLATE clause (context_of docs))) = Inr raw
         \<and> json_loads (slice raw (find raw (CHR ''{'')) (rfind raw (CHR ''}'') + 1)) = Some data"
  then show "check_clause_with_rag json_loads clause (Some vs) (Some b) k = Inr data"
    by (simp add: check_clause_present extract_json_def Let_def)
next
  assume s: "similarity_search vs clause k = Inr docs" and j: "json_loads ''{}'' = Some (PyDict [])"
  have raw: "fst (call_llm_tolerant (Some (text_backend ''{}'')) (PROMPT_TEMPLATE clause (context_of docs)))
               = Inr ''{}''"
    by (simp add: call_llm_tolerant_def text_backend_def strip_def is_space_def whitespace_def)
  have "slice ''{}'' (find ''{}'' (CHR ''{'')) (rfind ''{}'' (CHR ''}'') + 1) = ''{}''"
    by (simp add: slice_def find_def rfind_def clamp_index_def Let_def)
  then have "extract_json json_loads ''{}'' = Some (PyDict [])"
    using j by (simp add: extract_json_def Let_def)
  then have "check_clause_with_rag json_loads clause (Some vs) (Some (text_backend ''{}'')) k = Inr (PyDict [])"
    using s raw by (simp add: check_clause_present)
  then show "\<exists>data. check_clause_with_rag json_loads clause (Some vs) (Some (text_backend ''{}'')) k = Inr data
           \<and> \<not> has_key data ''compliant'' \<and> \<not> has_key data ''issue''
           \<and> \<not> has_key data ''suggestion'' \<and> \<not> has_key data ''citation''"
    by (simp add: has_key_def)
qed

theorem check_clause_returns_parsed_verbatim_witness:
  "check_clause_with_rag empty_object_loads ''Governed by DIFC courts.'' (Some sample_store)
       (Some (text_backend ''Here: {} '')) 3 = Inr (PyDict [])
   \<and> empty_object_loads ''{}'' = Some (PyDict [])
   \<and> (\<exists>data. check_clause_with_rag empty_object_loads ''Governed by DIFC courts.'' (Some sample_store)
                (Some (text_backend ''{}'')) 3 = Inr data
          \<and> \<not> has_key data ''compliant'' \<and> \<not> has_key data ''issue''
          \<and> \<not> has_key data ''suggestion'' \<and> \<not> has_key data ''citation'')"
proof -
  note s = sample_search [of "''Governed by DIFC courts.''"]
  note t = check_clause_returns_parsed_verbatim [OF s, of _ empty_object_loads]
  have l: "empty_object_loads ''{}'' = Some (PyDict [])"
    by (simp add: empty_object_loads_def)
  have a: "check_clause_with_rag empty_object_loads ''Governed by DIFC courts.'' (Some sample_store)
       (Some (text_backend ''Here: {} '')) 3 = Inr (PyDict [])"
    using t [of "text_backend ''Here: {} ''"] text_backend_answers [of "''Here: {} ''"] l
    by (simp add: strip_braces braces_slice2)
  show ?thesis using a l t by blast
qed

text \<open>
  Claim C3. For every clause and every backend handle, present or absent, calling the check
  with an absent store raises \<open>AttributeError\<close>: the retrieval is the first statement of
  the function, and no judgment is returned.
\<close>

theorem check_clause_absent_store_raises:
  "check_clause_with_rag json_loads clause None llm k =
     Inl (AttributeError (CHR 0x27 # ''NoneType'' @ CHR 0x27 # '' object has no attribute ''
                          @ CHR 0x27 # ''similarity_search'' @ [CHR 0x27]))"
  by (simp add: check_clause_with_rag_def)

text \<open>
  With the store absent the check does not return the judgment whose four fields are
  \<open>None\<close>.
\<close>

theorem check_clause_absent_store_counterexample:
  "check_clause_with_rag empty_object_loads ''Governed by DIFC courts.'' None None 3
     \<noteq> Inr (PyDict [(''compliant'', PyNone), (''issue'', PyNone),
                     (''suggestion'', PyNone), (''citation'', PyNone)])"
  by (simp add: check_clause_with_rag_def)






lemma place_set: "set (place x ys) = insert x (set ys)"
  by (induction ys) auto








section \<open>Order of the retrieved fragments\<close>

lemma place_descending: "descending ys \<Longrightarrow> descending (place x ys)"
  unfolding descending_def
proof (induction ys)
  case Nil
  then show ?case by simp
next
  case (Cons y ys)
  then show ?case by (auto simp: place_set)
qed

lemma ranked_descending: "descending (ranked xs)"
proof (induction xs)
  case Nil
  then show ?case by (simp add: descending_def)
next
  case (Cons x xs)
  then show ?case by (simp add: place_descending)
qed

lemma place_ties:
  "filter (\<lambda>p. snd p = v) (place x ys) =
     (if snd x = v then x # filter (\<lambda>p. snd p = v) ys else filter (\<lambda>p. snd p = v) ys)"
  by (induction ys) auto

lemma ranked_ties: "filter (\<lambda>p. snd p = v) (ranked xs) = filter (\<lambda>p. snd p = v) xs"
  by (induction xs) (auto simp: place_ties)

lemma filter_take_prefix:
  "filter P (take k ys) = take (length (filter P (take k ys))) (filter P ys)"
proof (induction ys arbitrary: k)
  case Nil
  then show ?case by simp
next
  case (Cons y ys)
  then show ?case by (cases k) auto
qed

lemma descending_take: "descending ys \<Longrightarrow> descending (take k ys)"
  unfolding descending_def by (rule sorted_wrt_take)

lemma with_score_take:
  "with_score v (take k ys) = take (length (with_score v (take k ys))) (with_score v ys)"
proof -
  let ?P = "\<lambda>p. snd p = v"
  have "take (length (with_score v (take k ys))) (with_score v ys)
          = map fst (take (length (filter ?P (take k ys))) (filter ?P ys))"
    by (simp only: with_score_def length_map take_map)
  also have "\<dots> = map fst (filter ?P (take k ys))"
    by (simp only: filter_take_prefix [symmetric])
  finally show ?thesis by (simp only: with_score_def)
qed

lemma with_score_ranked:
  "with_score v (ranked (map (\<lambda>f. (f, score query f)) store)) = filter (\<lambda>f. score query f = v) store"
  by (simp add: with_score_def ranked_ties filter_map comp_def)

text \<open>
  Claim C7. For every \<open>k\<close>, every store and every query, \<open>retrieve\<close> returns at most
  \<open>k\<close> results, ordered by decreasing similarity score, where fragments of equal score
  keep the order in which they were inserted: the results that have a given score are
  the first ones, in insertion order, of the fragments of the store with that score.
\<close>

theorem retrieve_ordering:
  "length (retrieve score store query k) \<le> k
   \<and> descending (retrieve score store query k)
   \<and> with_score v (retrieve score store query k) =
       take (length (with_score v (retrieve score store query k)))
            (filter (\<lambda>f. score query f = v) store)"
proof (intro conjI)
  show "length (retrieve score store query k) \<le> k"
    by (simp add: retrieve_def)
  show "descending (retrieve score store query k)"
    by (simp add: retrieve_def descending_take ranked_descending)
  show "with_score v (retrieve score store query k) =
       take (length (with_score v (retrieve score store query k)))
            (filter (\<lambda>f. score query f = v) store)"
    unfolding retrieve_def
    using with_score_take [of v k "ranked (map (\<lambda>f. (f, score query f)) store)"]
    by (simp add: with_score_ranked)
qed

theorem retrieve_ordering_witness:
  "retrieve length_score [short_fragment, adgm_fragment, difc_fragment] ''Governed by DIFC courts.'' 2
     = [(adgm_fragment, 40), (difc_fragment, 40)]
   \<and> descending [(adgm_fragment, 40 :: int), (difc_fragment, 40)]
   \<and> with_score 40 [(adgm_fragment, 40 :: int), (difc_fragment, 40)] = [adgm_fragment, difc_fragment]"
proof -
  have r: "retrieve length_score [short_fragment, adgm_fragment, difc_fragment]
             ''Governed by DIFC courts.'' 2 = [(adgm_fragment, 40), (difc_fragment, 40)]"
    by (simp add: retrieve_def length_score_def short_fragment_def adgm_fragment_def
                  difc_fragment_def)
  from retrieve_ordering [of length_score "[short_fragment, adgm_fragment, difc_fragment]"
         "''Governed by DIFC courts.''" 2 40]
  show ?thesis unfolding r by (simp add: with_score_def)
qed

text \<open>
  Two fragments of equal score are both returned, so the scores of a result need not
  decrease strictly.
\<close>

theorem retrieve_strictly_descending_counterexample:
  "length (retrieve flat_score [adgm_fragment, difc_fragment] ''Governed by DIFC courts.'' 2) \<le> 2
   \<and> \<not> strictly_descending
        (retrieve flat_score [adgm_fragment, difc_fragment] ''Governed by DIFC courts.'' 2)"
  by (simp add: retrieve_def flat_score_def strictly_descending_def)

section \<open>Building and loading\<close>

lemma sample_exists: "path_exists sample_env empty_folder_world ''legal_refs''"
  by (simp add: sample_env_def empty_folder_world_def)

lemma sample_embeddings: "model_name \<noteq> [] \<Longrightarrow> embeddings sample_env model_name = Inr model_name"
  by (simp add: sample_env_def)

lemma sample_build:
  "build_vector_store sample_env one_file_world ''legal_refs'' ''legal_refs/faiss_store''
      ''all-MiniLM-L6-v2'' =
     (Inr ([rules_document], ''all-MiniLM-L6-v2''),
      one_file_world\<lparr>persisted := [(''legal_refs/faiss_store'', [rules_document])]\<rparr>)"
  by code_simp

text \<open>
  Claim C5. A build that fails because the folder is missing, the embedding model cannot
  be initialised, no document was loaded or the vector store cannot be constructed
  leaves the file system as it was, with the error of that stage; the file system
  changes, and a store is returned, only when every stage before persisting has
  succeeded. The embedding model is initialised before the folder is read: a folder that
  exists and yields no document gives the empty-corpus error (\<open>ValueError\<close>) when the
  embedding model initialises, and the embedding error (\<open>RuntimeError\<close>) when it does
  not; in both cases nothing is written.
\<close>

theorem build_vector_store_persists_last:
  "(\<not> path_exists env w legal_folder \<longrightarrow>
      build_vector_store env w legal_folder save_dir hf_model =
        (Inl (FileNotFoundError (''Legal refs folder not found: '' @ legal_folder)), w))
   \<and> (\<forall>e. path_exists env w legal_folder \<and> embeddings env hf_model = Inl e \<longrightarrow>
      build_vector_store env w legal_folder save_dir hf_model =
        (Inl (RuntimeError (''Failed to initialize embeddings: '' @ str_exn e)), w))
   \<and> (\<forall>emb names. path_exists env w legal_folder \<and> embeddings env hf_model = Inr emb
        \<and> listdir env w legal_folder = Inr names
        \<and> load_folder env w legal_folder names [] = Inr [] \<longrightarrow>
      build_vector_store env w legal_folder save_dir hf_model =
        (Inl (ValueError ''No legal reference documents found in legal_refs/''), w))
   \<and> (\<forall>emb names docs chunks e. path_exists env w legal_folder \<and> embeddings env hf_model = Inr emb
        \<and> listdir env w legal_folder = Inr names
        \<and> load_folder env w legal_folder names [] = Inr docs \<and> docs \<noteq> []
        \<and> split_documents env docs = Inr chunks \<and> from_documents env chunks emb = Inl e \<longrightarrow>
      build_vector_store env w legal_folder save_dir hf_model =
        (Inl (RuntimeError (''Failed to build FAISS vectorstore: '' @ str_exn e)), w))
   \<and> (snd (build_vector_store env w legal_folder save_dir hf_model) \<noteq> w \<longrightarrow>
        (\<exists>vs. built_in_memory env w legal_folder hf_model vs))
   \<and> (\<forall>vs. fst (build_vector_store env w legal_folder save_dir hf_model) = Inr vs \<longrightarrow>
        built_in_memory env w legal_folder hf_model vs)"
proof (intro conjI allI impI)
  show "build_vector_store env w legal_folder save_dir hf_model =
        (Inl (FileNotFoundError (''Legal refs folder not found: '' @ legal_folder)), w)"
    if "\<not> path_exists env w legal_folder"
    using that by (simp add: build_vector_store_def)
next
  fix e
  assume "path_exists env w legal_folder \<and> embeddings env hf_model = Inl e"
  then show "build_vector_store env w legal_folder save_dir hf_model =
        (Inl (RuntimeError (''Failed to initialize embeddings: '' @ str_exn e)), w)"
    by (simp add: build_vector_store_def)
next
  fix emb names
  assume "path_exists env w legal_folder \<and> embeddings env hf_model = Inr emb
        \<and> listdir env w legal_folder = Inr names
        \<and> load_folder env w legal_folder names [] = Inr []"
  then show "build_vector_store env w legal_folder save_dir hf_model =
        (Inl (ValueError ''No legal reference documents found in legal_refs/''), w)"
    by (simp add: build_vector_store_def)
next
  fix emb names docs chunks e
  assume "path_exists env w legal_folder \<and> embeddings env hf_model = Inr emb
        \<and> listdir env w legal_folder = Inr names
        \<and> load_folder env w legal_folder names [] = Inr docs \<and> docs \<noteq> []
        \<and> split_documents env docs = Inr chunks \<and> from_documents env chunks emb = Inl e"
  then show "build_vector_store env w legal_folder save_dir hf_model =
        (Inl (RuntimeError (''Failed to build FAISS vectorstore: '' @ str_exn e)), w)"
    by (simp add: build_vector_store_def)
next
  assume "snd (build_vector_store env w legal_folder save_dir hf_model) \<noteq> w"
  then show "\<exists>vs. built_in_memory env w legal_folder hf_model vs"
    by (auto simp: build_vector_store_def built_in_memory_def
             split: if_splits sum.splits prod.splits option.splits)
next
  fix vs
  assume "fst (build_vector_store env w legal_folder save_dir hf_model) = Inr vs"
  then show "built_in_memory env w legal_folder hf_model vs"
    by (auto simp: build_vector_store_def built_in_memory_def
             split: if_splits sum.splits prod.splits option.splits)
qed

theorem build_vector_store_persists_last_witness:
  "build_vector_store sample_env empty_folder_world ''legal_refs'' ''legal_refs/faiss_store''
       ''all-MiniLM-L6-v2'' =
     (Inl (ValueError ''No legal reference documents found in legal_refs/''), empty_folder_world)
   \<and> \<not> path_exists sample_env empty_folder_world ''missing''
   \<and> build_vector_store sample_env empty_folder_world ''missing'' ''legal_refs/faiss_store''
       ''all-MiniLM-L6-v2'' =
     (Inl (FileNotFoundError ''Legal refs folder not found: missing''), empty_folder_world)"
proof -
  have l: "listdir sample_env empty_folder_world ''legal_refs'' = Inr []"
    by (simp add: sample_env_def empty_folder_world_def)
  have f: "load_folder sample_env empty_folder_world ''legal_refs'' [] [] = Inr []"
    by simp
  have m: "\<not> path_exists sample_env empty_folder_world ''missing''"
    by (simp add: sample_env_def empty_folder_world_def)
  note t = build_vector_store_persists_last [of sample_env empty_folder_world _
              "''legal_refs/faiss_store''" "''all-MiniLM-L6-v2''"]
  have a: "build_vector_store sample_env empty_folder_world ''legal_refs'' ''legal_refs/faiss_store''
       ''all-MiniLM-L6-v2'' =
     (Inl (ValueError ''No legal reference documents found in legal_refs/''), empty_folder_world)"
    using t [of "''legal_refs''"] sample_exists sample_embeddings [of "''all-MiniLM-L6-v2''"] l f
    by simp
  have b: "build_vector_store sample_env empty_folder_world ''missing'' ''legal_refs/faiss_store''
       ''all-MiniLM-L6-v2'' =
     (Inl (FileNotFoundError ''Legal refs folder not found: missing''), empty_folder_world)"
    using t [of "''missing''"] m by simp
  show ?thesis using a b m by simp
qed

text \<open>
  An empty folder does not always give the empty-corpus error: when the embedding model
  cannot be initialised, the build of an empty folder raises the embedding error.
\<close>

theorem build_vector_store_empty_folder_counterexample:
  "listdir sample_env empty_folder_world ''legal_refs'' = Inr []
   \<and> build_vector_store sample_env empty_folder_world ''legal_refs'' ''legal_refs/faiss_store'' []
       = (Inl (RuntimeError ''Failed to initialize embeddings: no such model''), empty_folder_world)
   \<and> fst (build_vector_store sample_env empty_folder_world ''legal_refs'' ''legal_refs/faiss_store'' [])
       \<noteq> Inl (ValueError ''No legal reference documents found in legal_refs/'')"
  by (simp add: build_vector_store_def sample_env_def empty_folder_world_def)

text \<open>
  Claim C8. Loading from a directory that does not exist fails with
  \<open>FileNotFoundError\<close>, and no store is returned.
\<close>

theorem load_vector_store_missing_directory:
  "\<not> path_exists env w save_dir \<Longrightarrow>
     load_vector_store env w save_dir hf_model =
       Inl (FileNotFoundError ''FAISS vectorstore not found. Run build_vector_store() first.'')"
  by (simp add: load_vector_store_def)

theorem load_vector_store_missing_directory_witness:
  "\<not> path_exists sample_env one_file_world ''legal_refs/faiss_store''
   \<and> load_vector_store sample_env one_file_world ''legal_refs/faiss_store'' ''all-MiniLM-L6-v2'' =
       Inl (FileNotFoundError ''FAISS vectorstore not found. Run build_vector_store() first.'')"
proof -
  have m: "\<not> path_exists sample_env one_file_world ''legal_refs/faiss_store''"
    by (simp add: sample_env_def one_file_world_def)
  from load_vector_store_missing_directory [OF m] m show ?thesis by simp
qed

text \<open>
  Claim C6. Loading compares no embedding model identifier: after a build under any
  identifier, a load of the persisted index under any identifier for which the embedding
  model can be initialised returns whatever store the library deserialises with that
  model.
\<close>

theorem load_vector_store_compares_no_identifier:
  "build_vector_store env w legal_folder save_dir built_with = (Inr vs, w') \<Longrightarrow>
   path_exists env w' save_dir \<Longrightarrow>
   embeddings env hf_model = Inr emb \<Longrightarrow>
   load_local env w' save_dir emb = Inr loaded \<Longrightarrow>
     load_vector_store env w' save_dir hf_model = Inr loaded"
  by (simp add: load_vector_store_def)

theorem load_vector_store_compares_no_identifier_witness:
  "''other-model'' \<noteq> ''all-MiniLM-L6-v2''
   \<and> load_vector_store sample_env built_world ''legal_refs/faiss_store'' ''other-model''
       = Inr ([rules_document], ''other-model'')"
proof -
  have b: "build_vector_store sample_env one_file_world ''legal_refs'' ''legal_refs/faiss_store''
      ''all-MiniLM-L6-v2'' = (Inr ([rules_document], ''all-MiniLM-L6-v2''), built_world)"
    by (simp add: built_world_def sample_build)
  have w: "built_world = one_file_world\<lparr>persisted := [(''legal_refs/faiss_store'', [rules_document])]\<rparr>"
    by (simp add: built_world_def sample_build)
  have p: "path_exists sample_env built_world ''legal_refs/faiss_store''"
    unfolding w by (simp add: sample_env_def)
  have e: "embeddings sample_env ''other-model'' = Inr ''other-model''"
    by (simp add: sample_env_def)
  have l: "load_local sample_env built_world ''legal_refs/faiss_store'' ''other-model''
             = Inr ([rules_document], ''other-model'')"
    unfolding w by (simp add: sample_env_def)
  from load_vector_store_compares_no_identifier [OF b p e l] show ?thesis by simp
qed

text \<open>
  An index built under \<open>all-MiniLM-L6-v2\<close> loads under \<open>other-model\<close>.
\<close>

theorem load_vector_store_mismatch_counterexample:
  "fst (build_vector_store sample_env one_file_world ''legal_refs'' ''legal_refs/faiss_store''
          ''all-MiniLM-L6-v2'') = Inr ([rules_document], ''all-MiniLM-L6-v2'')
   \<and> load_vector_store sample_env built_world ''legal_refs/faiss_store'' ''other-model''
       = Inr ([rules_document], ''other-model'')"
  unfolding built_world_def sample_build by code_simp

section \<open>Paragraph indexes of the annotations\<close>

lemma find_paragraph_none:
  "(find_paragraph m ps i = - 1) = (\<forall>p \<in> set ps. \<not> contains (lower m) (lower p))"
  by (induction ps arbitrary: i) auto

lemma find_paragraph_first:
  "find_paragraph m ps i \<noteq> - 1 \<Longrightarrow>
     \<exists>n < length ps. find_paragraph m ps i = int (i + n)
        \<and> contains (lower m) (lower (ps ! n))
        \<and> (\<forall>j < n. \<not> contains (lower m) (lower (ps ! j)))"
proof (induction ps arbitrary: i)
  case Nil
  then show ?case by simp
next
  case (Cons p ps)
  show ?case
  proof (cases "contains (lower m) (lower p)")
    case True
    then show ?thesis by (intro exI [of _ 0]) simp
  next
    case False
    with Cons.prems have "find_paragraph m ps (Suc i) \<noteq> - 1" by simp
    from Cons.IH [OF this] obtain n where n: "n < length ps"
      "find_paragraph m ps (Suc i) = int (Suc i + n)"
      "contains (lower m) (lower (ps ! n))"
      "\<forall>j < n. \<not> contains (lower m) (lower (ps ! j))" by blast
    have "\<forall>j < Suc n. \<not> contains (lower m) (lower ((p # ps) ! j))"
      using False n(4) by (auto simp: less_Suc_eq_0_disj)
    with n False show ?thesis
      by (intro exI [of _ "Suc n"]) simp
  qed
qed

lemma map_issue_index:
  "paragraph_index (map_issue ps iss) =
     (case match iss of None \<Rightarrow> 0
      | Some m \<Rightarrow> if m = [] \<or> find_paragraph m ps 0 = - 1 then 0 else find_paragraph m ps 0)"
  by (simp add: map_issue_def Let_def split: option.splits)

lemma map_issue_spec:
  "(if flag_text (map_issue ps iss) \<noteq> []
        \<and> (\<exists>p \<in> set ps. contains (lower (flag_text (map_issue ps iss))) (lower p))
    then first_containing (flag_text (map_issue ps iss)) ps (paragraph_index (map_issue ps iss))
    else paragraph_index (map_issue ps iss) = 0)"
proof (cases "match iss")
  case None
  then show ?thesis by (simp add: map_issue_def)
next
  case (Some m)
  then have ft: "flag_text (map_issue ps iss) = m" by (simp add: map_issue_def Let_def)
  show ?thesis
  proof (cases "m = [] \<or> find_paragraph m ps 0 = - 1")
    case True
    then show ?thesis using Some ft by (auto simp: map_issue_index find_paragraph_none)
  next
    case False
    then have ne: "find_paragraph m ps 0 \<noteq> - 1" and m: "m \<noteq> []" by auto
    from find_paragraph_first [OF ne] obtain n where n: "n < length ps"
      "find_paragraph m ps 0 = int n" "contains (lower m) (lower (ps ! n))"
      "\<forall>j < n. \<not> contains (lower m) (lower (ps ! j))" by auto
    have "first_containing m ps (int n)" using n by (simp add: first_containing_def)
    moreover have "paragraph_index (map_issue ps iss) = int n"
      using Some False n(2) by (simp add: map_issue_index)
    moreover have "\<exists>p \<in> set ps. contains (lower m) (lower p)"
      using n(1,3) nth_mem by blast
    ultimately show ?thesis using ft m by simp
  qed
qed

lemma run_all_checks_last:
  "detect_missing_signature_block ps \<noteq> [] \<Longrightarrow>
     run_all_checks text ps \<noteq> [] \<and>
     last (run_all_checks text ps) =
       \<lparr>paragraph_index = 0, flag_text = [], comment = ''No signature block detected in document.'',
        ann_severity = ''High''\<rparr>"
  by (auto simp: run_all_checks_def detect_missing_signature_block_def Let_def map_issue_def split: if_splits)

text \<open>
  Claim C10. Every annotation returned by \<open>run_all_checks\<close> carries the index of the first
  paragraph that contains its flagged text (ignoring case) when the flagged text is not
  empty and some paragraph contains it, and the index 0 otherwise: an issue whose match
  occurs in no paragraph gets index 0, and so does the missing-signature issue, which has
  no match text and is the last annotation whenever it is raised.
\<close>

theorem run_all_checks_paragraph_index:
  "(\<forall>a \<in> set (run_all_checks text paragraphs).
      if flag_text a \<noteq> [] \<and> (\<exists>p \<in> set paragraphs. contains (lower (flag_text a)) (lower p))
      then first_containing (flag_text a) paragraphs (paragraph_index a)
      else paragraph_index a = 0)
   \<and> (detect_missing_signature_block paragraphs \<noteq> [] \<longrightarrow>
        run_all_checks text paragraphs \<noteq> [] \<and>
        last (run_all_checks text paragraphs) =
          \<lparr>paragraph_index = 0, flag_text = [],
           comment = ''No signature block detected in document.'', ann_severity = ''High''\<rparr>)"
proof (intro conjI ballI impI)
  fix a assume "a \<in> set (run_all_checks text paragraphs)"
  then obtain iss where "a = map_issue paragraphs iss"
    by (auto simp: run_all_checks_def Let_def)
  then show "if flag_text a \<noteq> [] \<and> (\<exists>p \<in> set paragraphs. contains (lower (flag_text a)) (lower p))
      then first_containing (flag_text a) paragraphs (paragraph_index a)
      else paragraph_index a = 0"
    using map_issue_spec [of paragraphs iss] by simp
next
  assume "detect_missing_signature_block paragraphs \<noteq> []"
  then show "run_all_checks text paragraphs \<noteq> []" using run_all_checks_last by blast
next
  assume "detect_missing_signature_block paragraphs \<noteq> []"
  then show "last (run_all_checks text paragraphs) =
          \<lparr>paragraph_index = 0, flag_text = [],
           comment = ''No signature block detected in document.'', ann_severity = ''High''\<rparr>"
    using run_all_checks_last by blast
qed


theorem run_all_checks_paragraph_index_witness:
  "\<lparr>paragraph_index = 1, flag_text = ''DIFC'', comment = ''References DIFC instead of ADGM'',
    ann_severity = ''High''\<rparr> \<in> set (run_all_checks ''DIFC'' [''x'', ''DIFC''])
   \<and> first_containing ''DIFC'' [''x'', ''DIFC''] 1
   \<and> detect_missing_signature_block [''x'', ''DIFC''] \<noteq> []
   \<and> paragraph_index (last (run_all_checks ''DIFC'' [''x'', ''DIFC''])) = 0"
proof -
  let ?a = "\<lparr>paragraph_index = 1, flag_text = ''DIFC'',
             comment = ''References DIFC instead of ADGM'', ann_severity = ''High''\<rparr>"
  have mem: "?a \<in> set (run_all_checks ''DIFC'' [''x'', ''DIFC''])"
    by code_simp
  have hit: "contains (lower ''DIFC'') (lower ''DIFC'')"
    by code_simp
  have sig: "detect_missing_signature_block [''x'', ''DIFC''] \<noteq> []"
    by code_simp
  from run_all_checks_paragraph_index [of "''DIFC''" "[''x'', ''DIFC'']"] mem hit sig
  show ?thesis by auto
qed

end
